theory Spec2Isabelle
  imports Complex_Main "HOL-Library.Product_Lexorder" "HOL-Library.Char_ord"
    "HOL-Library.List_Lexorder" "HOL-Library.Multiset"
begin

section \<open>Common data\<close>

text \<open>
  The exceptions the modelled functions can raise. \<open>ValueError\<close> carries its message.
\<close>

datatype py_error = IndexError | KeyError | ValueError string

text \<open>
  A Python float is either a number or NaN. Numbers are modelled as exact reals; rounding is
  not modelled. Every comparison with NaN is false, as in Python.
\<close>

datatype pyfloat = NaN | Num real

fun pf_le :: "pyfloat \<Rightarrow> real \<Rightarrow> bool" where
  "pf_le NaN c = False"
| "pf_le (Num x) c = (x \<le> c)"

fun pf_gt :: "pyfloat \<Rightarrow> real \<Rightarrow> bool" where
  "pf_gt NaN c = False"
| "pf_gt (Num x) c = (x > c)"

fun pf_half :: "pyfloat \<Rightarrow> pyfloat" where
  "pf_half NaN = NaN"
| "pf_half (Num x) = Num (x / 2)"

section \<open>The edge table (generate\_tables.py, format\_output.py)\<close>

text \<open>
  Modelled from the spec: \<open>ClusterType\<close> and its \<open>Genotype\<close> value class are imported from
  \<open>order_clusters\<close>, which is not among the sources. The functions below read the fields
  \<open>name\<close> and \<open>background\<close> of each value. A dictionary is an association list in
  insertion order. The spec describes the map as keyed by genotype id, and it reserves
  \<open>genotype-0\<close> for the synthetic root, which is never the id of a genotype of the map:
  \<open>cluster_map_ok\<close> states both.
\<close>

record genotype_info =
  name :: string
  background :: "string list"

type_synonym cluster_type = "(string \<times> genotype_info) list"

definition cluster_map_ok :: "cluster_type \<Rightarrow> bool" where
  "cluster_map_ok cs =
     (distinct (map fst cs) \<and> list_all (\<lambda>(k, g). name g = k) cs \<and>
      ''genotype-0'' \<notin> set (map fst cs))"

record edge_row =
  Parent :: string
  Identity :: string

text \<open>The body of the loop of \<open>generate_ggmuller_edges_table\<close> for one genotype.\<close>

definition edge_of :: "genotype_info \<Rightarrow> py_error + edge_row" where
  "edge_of genotype_info =
     (let identity = name genotype_info;
          bg = background genotype_info
      in case (if length bg = 1 then Inr ''genotype-0''
               else (case bg of [] \<Rightarrow> Inl IndexError | p # _ \<Rightarrow> Inr p)) of
           Inl e \<Rightarrow> Inl e
         | Inr parent \<Rightarrow>
             Inr \<lparr>Parent = (if parent = identity then ''genotype-0'' else parent),
                  Identity = identity\<rparr>)"

fun edge_rows :: "genotype_info list \<Rightarrow> py_error + edge_row list" where
  "edge_rows [] = Inr []"
| "edge_rows (g # gs) =
     (case edge_of g of
        Inl e \<Rightarrow> Inl e
      | Inr r \<Rightarrow> (case edge_rows gs of Inl e \<Rightarrow> Inl e | Inr rs \<Rightarrow> Inr (r # rs)))"

text \<open>
  Selecting the columns \<open>['Parent', 'Identity']\<close> of a frame built from an empty list of
  rows raises \<open>KeyError\<close>.
\<close>

definition generate_ggmuller_edges_table :: "cluster_type \<Rightarrow> py_error + edge_row list" where
  "generate_ggmuller_edges_table genotype_clusters =
     (case edge_rows (map snd genotype_clusters) of
        Inl e \<Rightarrow> Inl e
      | Inr table \<Rightarrow> if table = [] then Inl KeyError else Inr table)"

text \<open>\<open>create_ggmuller_edges\<close> of format\_output.py has the same body, line by line.\<close>

definition create_ggmuller_edges :: "cluster_type \<Rightarrow> py_error + edge_row list" where
  "create_ggmuller_edges genotype_clusters =
     (case edge_rows (map snd genotype_clusters) of
        Inl e \<Rightarrow> Inl e
      | Inr table \<Rightarrow> if table = [] then Inl KeyError else Inr table)"

text \<open>The parent the claim describes for a genotype with a non-empty background.\<close>

definition expected_parent :: "genotype_info \<Rightarrow> string" where
  "expected_parent g =
     (if length (background g) = 1 \<or> hd (background g) = name g then ''genotype-0''
      else hd (background g))"

section \<open>The population table (generate\_tables.py)\<close>

text \<open>
  A genotype frequency table: the column labels (timepoints) and, per genotype, its label
  and its frequencies in column order. The \<open>members\<close> column, which the function removes
  first, is left out. Cells are numbers.
\<close>

type_synonym frame = "(string \<times> real list) list"

record pop_row =
  pop_Identity :: string
  Generation :: int
  Population :: real

text \<open>
  \<open>children[parent] = children.get(parent, list()) + [identity]\<close>, for each edge in order.
\<close>

definition add_child :: "(string \<rightharpoonup> string list) \<Rightarrow> edge_row \<Rightarrow> (string \<rightharpoonup> string list)" where
  "add_child children row =
     children (Parent row \<mapsto>
       (case children (Parent row) of None \<Rightarrow> [] | Some l \<Rightarrow> l) @ [Identity row])"

definition children_map :: "edge_row list \<Rightarrow> (string \<rightharpoonup> string list)" where
  "children_map edges = foldl add_child Map.empty edges"

text \<open>
  \<open>frame.loc[labels]\<close>: the rows carrying each label, in the order of the labels;
  a label without a row raises \<open>KeyError\<close>.
\<close>

fun loc_rows :: "frame \<Rightarrow> string list \<Rightarrow> py_error + frame" where
  "loc_rows fr [] = Inr []"
| "loc_rows fr (l # ls) =
     (case filter (\<lambda>r. fst r = l) fr of
        [] \<Rightarrow> Inl KeyError
      | rs \<Rightarrow> (case loc_rows fr ls of Inl e \<Rightarrow> Inl e | Inr rest \<Rightarrow> Inr (rs @ rest)))"

text \<open>The column-wise maximum of a non-empty selection of rows (\<open>.max()\<close>).\<close>

definition column_max :: "frame \<Rightarrow> nat \<Rightarrow> real" where
  "column_max sel j = Max (set (map (\<lambda>r. snd r ! j) sel))"

text \<open>
  The branch for a genotype with children (lines 48 to 52). Selecting
  \<open>genotype > detection_cutoff\<close> keeps the detected timepoints; the subtraction aligns the two
  series on all timepoints and is undefined where the genotype was not selected; values
  below the cutoff become 0.01; undefined values are dropped. When some timepoint was not
  selected the aligned index is in ascending order, otherwise in column order.
\<close>

definition parent_frequencies :: "int list \<Rightarrow> real list \<Rightarrow> frame \<Rightarrow> real \<Rightarrow> (int \<times> real) list" where
  "parent_frequencies cols genotype sel detection_cutoff =
     (let aligned = map (\<lambda>j.
            (cols ! j,
             if genotype ! j > detection_cutoff
             then Some (genotype ! j - column_max sel j) else None)) [0..<length cols];
          masked = map (\<lambda>(t, v). (t, map_option (\<lambda>s. if s < detection_cutoff then 0.01 else s) v)) aligned;
          kept = concat (map (\<lambda>(t, v). case v of None \<Rightarrow> [] | Some s \<Rightarrow> [(t, s)]) masked)
      in if list_all (\<lambda>v. v > detection_cutoff) genotype then kept else sort_key fst kept)"

definition genotype_rows ::
  "int list \<Rightarrow> frame \<Rightarrow> (string \<rightharpoonup> string list) \<Rightarrow> real \<Rightarrow> string \<times> real list \<Rightarrow> py_error + pop_row list" where
  "genotype_rows cols modified_genotypes children detection_cutoff g =
     (case g of (genotype_label, genotype) \<Rightarrow>
        (case (case children genotype_label of
                 Some cs \<Rightarrow>
                   (case loc_rows modified_genotypes cs of
                      Inl e \<Rightarrow> Inl e
                    | Inr sel \<Rightarrow> Inr (parent_frequencies cols genotype sel detection_cutoff))
               | None \<Rightarrow> Inr (zip cols genotype)) of
           Inl e \<Rightarrow> Inl e
         | Inr genotype_frequencies \<Rightarrow>
             Inr (map (\<lambda>(timepoint, frequency).
                    \<lparr>pop_Identity = genotype_label, Generation = timepoint,
                     Population = frequency * 100\<rparr>) genotype_frequencies)))"

fun population_rows ::
  "int list \<Rightarrow> frame \<Rightarrow> (string \<rightharpoonup> string list) \<Rightarrow> real \<Rightarrow> frame \<Rightarrow> py_error + pop_row list" where
  "population_rows cols modified children cutoff [] = Inr []"
| "population_rows cols modified children cutoff (g # gs) =
     (case genotype_rows cols modified children cutoff g of
        Inl e \<Rightarrow> Inl e
      | Inr rs \<Rightarrow>
          (case population_rows cols modified children cutoff gs of
             Inl e \<Rightarrow> Inl e
           | Inr rest \<Rightarrow> Inr (rs @ rest)))"

text \<open>
  The second loop (lines 69 to 76): one group per distinct generation, in ascending order.
\<close>

definition generation_population :: "pop_row list \<Rightarrow> int \<Rightarrow> real" where
  "generation_population table generation =
     sum_list (map Population (filter (\<lambda>r. Generation r = generation) table))"

definition root_row :: "pop_row list \<Rightarrow> int \<Rightarrow> pop_row" where
  "root_row table generation =
     (let population = generation_population table generation
      in \<lparr>pop_Identity = ''genotype-0'', Generation = generation,
          Population = (if population \<le> 100 then 100 - population else 0)\<rparr>)"

definition root_rows :: "pop_row list \<Rightarrow> pop_row list" where
  "root_rows table = map (root_row table) (sort (remdups (map Generation table)))"

text \<open>
  \<open>generate_ggmuller_population_table\<close>. Grouping a frame built from no rows by
  \<open>Generation\<close> raises \<open>KeyError\<close>.
\<close>

definition generate_ggmuller_population_table ::
  "int list \<Rightarrow> frame \<Rightarrow> edge_row list \<Rightarrow> real \<Rightarrow> py_error + pop_row list" where
  "generate_ggmuller_population_table cols mean_genotypes edges detection_cutoff =
     (let modified_genotypes = filter (\<lambda>r. fst r \<in> set (map Identity edges)) mean_genotypes;
          children = children_map edges
      in case population_rows cols modified_genotypes children detection_cutoff modified_genotypes of
           Inl e \<Rightarrow> Inl e
         | Inr table \<Rightarrow> if table = [] then Inl KeyError else Inr (table @ root_rows table))"

text \<open>A well-formed table: distinct timepoints, distinct labels, rows as long as the columns.\<close>

definition frame_ok :: "int list \<Rightarrow> frame \<Rightarrow> bool" where
  "frame_ok cols fr =
     (distinct cols \<and> distinct (map fst fr) \<and> list_all (\<lambda>r. length (snd r) = length cols) fr)"

text \<open>
  The value kept for a parent genotype at one timepoint: differences below the cutoff are
  replaced by 0.01 (line 51).
\<close>

definition floor_value :: "real \<Rightarrow> real \<Rightarrow> real" where
  "floor_value cutoff s = (if s < cutoff then 0.01 else s)"

text \<open>
  The largest frequency, in column \<open>j\<close>, among the genotypes that the edge table lists as
  children of \<open>label\<close>.
\<close>

definition children_max :: "frame \<Rightarrow> edge_row list \<Rightarrow> string \<Rightarrow> nat \<Rightarrow> real" where
  "children_max mean_genotypes edges label j =
     Max (set (map (\<lambda>r. snd r ! j)
       (filter (\<lambda>r. list_ex (\<lambda>e. Parent e = label \<and> Identity e = fst r) edges) mean_genotypes)))"

text \<open>A parent and its child, sampled at three timepoints.\<close>

definition example_genotypes :: frame where
  "example_genotypes = [(''genotype-1'', [0, 0.5, 0.9]), (''genotype-2'', [0, 0.1, 0.88])]"

definition example_edges :: "edge_row list" where
  "example_edges = [\<lparr>Parent = ''genotype-0'', Identity = ''genotype-1''\<rparr>,
                    \<lparr>Parent = ''genotype-1'', Identity = ''genotype-2''\<rparr>]"

definition example_table :: "pop_row list" where
  "example_table =
     [\<lparr>pop_Identity = ''genotype-1'', Generation = 1, Population = 40\<rparr>,
      \<lparr>pop_Identity = ''genotype-1'', Generation = 2, Population = 1\<rparr>,
      \<lparr>pop_Identity = ''genotype-2'', Generation = 0, Population = 0\<rparr>,
      \<lparr>pop_Identity = ''genotype-2'', Generation = 1, Population = 10\<rparr>,
      \<lparr>pop_Identity = ''genotype-2'', Generation = 2, Population = 88\<rparr>]"

definition example_roots :: "pop_row list" where
  "example_roots =
     [\<lparr>pop_Identity = ''genotype-0'', Generation = 0, Population = 100\<rparr>,
      \<lparr>pop_Identity = ''genotype-0'', Generation = 1, Population = 50\<rparr>,
      \<lparr>pop_Identity = ''genotype-0'', Generation = 2, Population = 11\<rparr>]"

section \<open>The background checks (inheritance/checks.py)\<close>

text \<open>
  A frequency series: the timepoints with their frequencies, in index order. The series
  compared are rows of one genotype table, and their names are strings.
\<close>

type_synonym series = "(int \<times> real) list"

text \<open>
  \<open>pandas.concat([left, right], axis = 1)\<close> for two series over the same timepoints: one
  row per timepoint with both frequencies.
\<close>

definition concat_axis1 :: "series \<Rightarrow> series \<Rightarrow> (int \<times> real \<times> real) list" where
  "concat_axis1 left right = map (\<lambda>((index, l), (_, r)). (index, l, r)) (zip left right)"

text \<open>
  \<open>get_detected_points\<close>: the labels of the rows where both values are below \<open>dlimit\<close>
  are collected, then the rows with those labels are dropped.
\<close>

definition get_detected_points :: "series \<Rightarrow> series \<Rightarrow> real \<Rightarrow> (int \<times> real \<times> real) list" where
  "get_detected_points left right dlimit =
     (let df = concat_axis1 left right;
          dropped_labels = map fst (filter (\<lambda>(index, l, r). l < dlimit \<and> r < dlimit) df)
      in filter (\<lambda>(index, l, r). index \<notin> set dropped_labels) df)"

text \<open>
  \<open>scipy.stats.ttest_1samp\<close> belongs to an external library. It is modelled by its
  mathematical definition: the statistic is \<open>(mean a - popmean) / sqrt (var a / n)\<close> with the
  sample variance (\<open>ddof = 1\<close>), and the p-value is the two-sided tail probability of
  Student's t distribution with \<open>n - 1\<close> degrees of freedom. For an integer number of
  degrees of freedom this probability has a closed form, a finite sum in the angle
  \<open>arctan (t / sqrt df)\<close>, used below. Only the p-value is modelled: the callers discard
  the statistic.
\<close>

definition mean :: "real list \<Rightarrow> real" where
  "mean a = sum_list a / real (length a)"

definition var_ddof1 :: "real list \<Rightarrow> real" where
  "var_ddof1 a = (\<Sum>x\<leftarrow>a. (x - mean a)\<^sup>2) / (real (length a) - 1)"

text \<open>
  \<open>even_coefficient j\<close> is the product of \<open>(2 i - 1) / (2 i)\<close> and \<open>odd_coefficient j\<close> the
  product of \<open>(2 i) / (2 i + 1)\<close>, for \<open>i\<close> from 1 to \<open>j\<close>; \<open>series_sum c m u\<close> is the sum
  of \<open>c j * u ^ j\<close> for \<open>j < m\<close>.
\<close>

primrec even_coefficient :: "nat \<Rightarrow> real" where
  "even_coefficient 0 = 1"
| "even_coefficient (Suc j) = even_coefficient j * (2 * real j + 1) / (2 * real j + 2)"

primrec odd_coefficient :: "nat \<Rightarrow> real" where
  "odd_coefficient 0 = 1"
| "odd_coefficient (Suc j) = odd_coefficient j * (2 * real j + 2) / (2 * real j + 3)"

primrec series_sum :: "(nat \<Rightarrow> real) \<Rightarrow> nat \<Rightarrow> real \<Rightarrow> real" where
  "series_sum c 0 u = 0"
| "series_sum c (Suc m) u = series_sum c m u + c m * u ^ m"

text \<open>
  The probability that the absolute value of a Student t variable with \<open>df\<close> degrees of
  freedom exceeds \<open>\<bar>t\<bar>\<close>. With \<open>x = \<bar>t\<bar> / sqrt df\<close>, \<open>u\<close> is the squared cosine and \<open>s\<close> the
  sine of \<open>arctan x\<close>.
\<close>

definition student_t_two_sided :: "nat \<Rightarrow> real \<Rightarrow> real" where
  "student_t_two_sided df t =
     (let x = \<bar>t\<bar> / sqrt (real df);
          u = 1 / (1 + x\<^sup>2);
          s = x / sqrt (1 + x\<^sup>2)
      in if even df then 1 - s * series_sum even_coefficient (df div 2) u
         else 1 - 2 / pi * (arctan x + s * sqrt u * series_sum odd_coefficient (df div 2) u))"

text \<open>
  The p-value of the one-sample test. A single value has no sample variance, and the
  result is NaN; with zero variance the statistic is infinite and the p-value 0, or, when the
  mean equals \<open>popmean\<close>, the statistic and the p-value are NaN.
\<close>

definition ttest_1samp :: "real list \<Rightarrow> real \<Rightarrow> pyfloat" where
  "ttest_1samp a popmean =
     (let n = length a;
          df = n - 1;
          d = mean a - popmean;
          v = var_ddof1 a;
          denom = sqrt (v / real n)
      in if n < 2 then NaN
         else if denom = 0 then (if d = 0 then NaN else Num 0)
         else Num (student_t_two_sided df (d / denom)))"

text \<open>
  \<open>check_additive_background\<close> (lines 32 to 46). The printing at lines 36 to 39 has no
  effect on the result. The two cutoff arguments are not used.
\<close>

definition check_additive_background :: "series \<Rightarrow> series \<Rightarrow> real \<Rightarrow> real \<Rightarrow> bool" where
  "check_additive_background left right double_cutoff single_cutoff =
     (let detected = get_detected_points left right 0.03;
          genotypesum = map (\<lambda>(index, l, r). l + r) detected;
          pvalue = (if genotypesum \<noteq> [] then ttest_1samp genotypesum 1 else Num 0);
          pvalue = pf_half pvalue
      in \<not> pf_le pvalue 0.05)"

text \<open>\<open>check_subtractive_background\<close> (lines 106 to 112).\<close>

definition check_subtractive_background :: "series \<Rightarrow> series \<Rightarrow> real \<Rightarrow> real \<Rightarrow> bool" where
  "check_subtractive_background left right double_cutoff single_cutoff =
     (let detected = get_detected_points left right 0.03;
          difference = map (\<lambda>(index, l, r). \<bar>l - r\<bar>) detected;
          pvalue = (if difference \<noteq> [] then ttest_1samp difference 0 else Num 0)
      in pf_gt pvalue 0.05)"

text \<open>
  \<open>left.cov(right)\<close>: the sample covariance of the paired values, NaN for fewer than two
  pairs.
\<close>

definition series_cov :: "series \<Rightarrow> series \<Rightarrow> pyfloat" where
  "series_cov left right =
     (let pairs = zip (map snd left) (map snd right);
          n = length pairs;
          xbar = mean (map fst pairs);
          ybar = mean (map snd pairs)
      in if n < 2 then NaN
         else Num ((\<Sum>(x, y)\<leftarrow>pairs. (x - xbar) * (y - ybar)) / (real n - 1)))"

definition check_derivative_background :: "series \<Rightarrow> series \<Rightarrow> real \<Rightarrow> pyfloat" where
  "check_derivative_background left right detection_cutoff = series_cov left right"

text \<open>The fields of the options object that \<open>apply_genotype_checks\<close> reads.\<close>

record check_options =
  additive_background_double_cutoff :: real
  additive_background_single_cutoff :: real
  subtractive_background_double_cutoff :: real
  subtractive_background_single_cutoff :: real
  derivative_detection_cutoff :: real

definition apply_genotype_checks ::
  "series \<Rightarrow> series \<Rightarrow> check_options \<Rightarrow> bool \<times> bool \<times> pyfloat option" where
  "apply_genotype_checks type_trajectory test_trajectory options =
     (let additive_check = check_additive_background type_trajectory test_trajectory
            (additive_background_double_cutoff options) (additive_background_single_cutoff options);
          subtractive_check = check_subtractive_background type_trajectory test_trajectory
            (subtractive_background_double_cutoff options) (subtractive_background_single_cutoff options);
          delta = (if subtractive_check then None
                   else Some (check_derivative_background type_trajectory test_trajectory
                                (derivative_detection_cutoff options)))
      in (additive_check, subtractive_check, delta))"

text \<open>
  The covariance as C6 words it, restricted to the timepoints selected by the detection
  cutoff. It is compared with \<open>check_derivative_background\<close> below.
\<close>

definition spec_detected_covariance :: "series \<Rightarrow> series \<Rightarrow> real \<Rightarrow> pyfloat" where
  "spec_detected_covariance left right detection_cutoff =
     (let detected = get_detected_points left right detection_cutoff
      in series_cov (map (\<lambda>(index, l, r). (index, l)) detected)
                    (map (\<lambda>(index, l, r). (index, r)) detected))"

text \<open>
  The sample covariance of two lists of values, by the product formula: the sum of the
  products minus \<open>n\<close> times the product of the means, over \<open>n - 1\<close>.
\<close>

definition sample_covariance :: "real list \<Rightarrow> real list \<Rightarrow> real" where
  "sample_covariance xs ys =
     ((\<Sum>(x, y)\<leftarrow>zip xs ys. x * y) - real (length (zip xs ys)) * mean (map fst (zip xs ys)) * mean (map snd (zip xs ys)))
       / (real (length (zip xs ys)) - 1)"

text \<open>The two identical trajectories of the example of C4.\<close>

definition example_A :: series where
  "example_A = [(0, 0), (1, 0.5), (2, 0.9), (3, 0.9)]"

definition example_B :: series where
  "example_B = [(0, 0), (1, 0.5), (2, 0.9), (3, 0.9)]"

section \<open>The genotype sorter (sort\_genotypes.py)\<close>



text \<open>
  \<open>(transposed > cutoff).idxmax(0)\<close> for one genotype: the label of the first timepoint
  whose frequency exceeds the cutoff, and the first timepoint label when none does.
\<close>

definition idxmax_above :: "int list \<Rightarrow> real list \<Rightarrow> real \<Rightarrow> int" where
  "idxmax_above cols row cutoff =
     (case filter (\<lambda>(t, v). v > cutoff) (zip cols row) of [] \<Rightarrow> hd cols | (t, _) # _ \<Rightarrow> t)"

text \<open>
  The row of a genotype in the frame \<open>df\<close> (lines 70 to 87). \<open>nonzero\<close> removes a genotype
  from \<open>firstFixed\<close> or \<open>firstDetected\<close> when its timepoint is 0, which leaves the cell
  undefined after the outer join; a \<open>firstThreshold\<close> of 0 is replaced by 13.
\<close>

record first_points =
  firstFixed :: "int option"
  firstDetected :: "int option"
  firstThreshold :: int

definition first_points_of :: "int list \<Rightarrow> real \<Rightarrow> real \<Rightarrow> real \<Rightarrow> real list \<Rightarrow> first_points" where
  "first_points_of cols frequency_breakpoint detection_cutoff significant_cutuff row =
     (let first_detected = idxmax_above cols row detection_cutoff;
          first_above_threshold = idxmax_above cols row significant_cutuff;
          first_fixed = idxmax_above cols row frequency_breakpoint
      in \<lparr>firstFixed = (if first_fixed \<noteq> 0 then Some first_fixed else None),
          firstDetected = (if first_detected \<noteq> 0 then Some first_detected else None),
          firstThreshold = (if first_above_threshold = 0 then 13 else first_above_threshold)\<rparr>)"

text \<open>A row without an undefined cell: \<open>dropna\<close> and \<open>groupby\<close> keep only these.\<close>

definition has_all_points :: "first_points \<Rightarrow> bool" where
  "has_all_points p = (firstFixed p \<noteq> None \<and> firstDetected p \<noteq> None)"

text \<open>
  The key of \<open>groupby(by = list(sorted_frequencies.columns))\<close>, the three columns in order;
  it is read only for rows without an undefined cell.
\<close>

definition group_key :: "first_points \<Rightarrow> int \<times> int \<times> int" where
  "group_key p =
     (case firstFixed p of None \<Rightarrow> 0 | Some t \<Rightarrow> t,
      case firstDetected p of None \<Rightarrow> 0 | Some t \<Rightarrow> t,
      firstThreshold p)"

text \<open>
  The key of \<open>sort_values(by = ['firstDetected', 'firstThreshold'])\<close>: ascending, undefined
  values last; the sort is stable.
\<close>

definition sort_values_key :: "first_points \<Rightarrow> (nat \<times> int) \<times> int" where
  "sort_values_key p =
     (case firstDetected p of None \<Rightarrow> (1, 0) | Some t \<Rightarrow> (0, t), firstThreshold p)"

text \<open>
  The trajectories appended for one group (lines 101 to 108): \<open>loc\<close> for a single member,
  and otherwise the table without the genotypes that are not in the group.
\<close>

definition group_trajectories :: "frame \<Rightarrow> string list \<Rightarrow> frame" where
  "group_trajectories genotype_trajectories group_index =
     (if length group_index < 2
      then concat (map (\<lambda>l. filter (\<lambda>r. fst r = l) genotype_trajectories) group_index)
      else filter (\<lambda>r. fst r \<in> set group_index) genotype_trajectories)"

text \<open>
  The frame \<open>sorted_frequencies\<close> (lines 86 to 92). The three series are joined on the
  genotype labels. The order of the joined rows matters only when no group is formed
  below; some genotype then lacks \<open>firstDetected\<close>, the three indexes differ, and the joined
  index is the sorted union of the labels.
\<close>

definition sorted_frequencies ::
  "int list \<Rightarrow> frame \<Rightarrow> real \<Rightarrow> real \<Rightarrow> real \<Rightarrow> real \<Rightarrow> (string \<times> first_points) list" where
  "sorted_frequencies cols genotype_trajectories frequency_breakpoint detection_cutoff
       significant_cutuff fixed_cutoff =
     (let df = sort_key fst (map (\<lambda>(label, row).
                 (label, first_points_of cols frequency_breakpoint detection_cutoff
                           significant_cutuff row)) genotype_trajectories);
          df = filter (\<lambda>(label, p). firstFixed p \<noteq> None) df;
          df = (if frequency_breakpoint = fixed_cutoff
                then filter (\<lambda>(label, p). has_all_points p) df else df)
      in sort_key (\<lambda>(label, p). sort_values_key p) df)"

text \<open>
  The list \<open>freq_groups\<close> (lines 98 to 108): the groups are visited in ascending order of
  their key, and rows with an undefined cell belong to no group.
\<close>

definition frequency_groups :: "frame \<Rightarrow> (string \<times> first_points) list \<Rightarrow> frame list" where
  "frequency_groups genotype_trajectories sorted_frame =
     (let grouped = filter (\<lambda>(label, p). has_all_points p) sorted_frame;
          keys = sort (remdups (map (\<lambda>(label, p). group_key p) grouped))
      in map (\<lambda>k. group_trajectories genotype_trajectories
                (map fst (filter (\<lambda>(label, p). group_key p = k) grouped))) keys)"

text \<open>
  \<open>sort_genotype_frequencies\<close>. Its caller reads the index of the returned frame and
  whether it is empty, so the model returns the index. A table without timepoints has no
  \<open>idxmax\<close>.
\<close>

definition sort_genotype_frequencies ::
  "int list \<Rightarrow> frame \<Rightarrow> real \<Rightarrow> real \<Rightarrow> real \<Rightarrow> real \<Rightarrow> py_error + string list" where
  "sort_genotype_frequencies cols genotype_trajectories frequency_breakpoint detection_cutoff
       significant_cutuff fixed_cutoff =
     (if cols = [] then Inl (ValueError ''attempt to get argmax of an empty sequence'')
      else
        let sorted_frame = sorted_frequencies cols genotype_trajectories frequency_breakpoint
                             detection_cutoff significant_cutuff fixed_cutoff;
            freq_groups = frequency_groups genotype_trajectories sorted_frame
        in if freq_groups \<noteq> [] then Inr (map fst (concat freq_groups))
           else Inr (map fst sorted_frame))"








section \<open>Genotype generation (muller\_genotypes/generate.py)\<close>

text \<open>The trajectory table: its timepoint columns and its rows.\<close>

type_synonym trajectory_table = "int list \<times> frame"

text \<open>
  The fields of \<open>GenotypeOptions\<close> that \<open>generate_genotypes\<close> reads. The two breakpoints
  carry a prefix because \<open>sort_options\<close> has fields of the same names, and the field
  \<open>options.method\<close> is named \<open>clustering_method\<close>.
\<close>

record genotype_options =
  genotype_detection_breakpoint :: real
  genotype_fixed_breakpoint :: real
  similarity_breakpoint :: real
  difference_breakpoint :: real
  clustering_method :: string
  starting_genotypes :: "string list list"

text \<open>
  The table returned by \<open>calculate_mean_genotype\<close>: per genotype its label, its
  \<open>members\<close> cell and its mean frequencies by timepoint.
\<close>

type_synonym mean_genotype_table = "(string \<times> string \<times> series) list"

text \<open>Lines 52 to 56: the members are split off and the columns sorted.\<close>

definition finish_genotypes ::
  "mean_genotype_table \<Rightarrow> 'l option \<Rightarrow> (string \<times> series) list \<times> (string \<times> string) list \<times> 'l option" where
  "finish_genotypes mean_genotypes linkage_matrix =
     (let genotype_members = map (\<lambda>(label, members, row). (label, members)) mean_genotypes;
          sorted_columns = map (\<lambda>(label, members, row). (label, sort_key fst row)) mean_genotypes
      in (sorted_columns, genotype_members, linkage_matrix))"

text \<open>
  \<open>generate_genotypes\<close>. The functions it calls, \<open>PairwiseCalculation.update_values\<close>,
  \<open>matlab_method\<close>, \<open>hierarchical_method\<close> and \<open>calculate_mean_genotype\<close>, are defined in
  other modules and are parameters of the model. \<open>update_values\<close> populates the module-level
  cache \<open>PAIRWISE_CALCULATIONS\<close>, which the model threads as state: the function returns its
  result and the cache.
\<close>

definition generate_genotypes ::
  "(trajectory_table \<Rightarrow> real \<Rightarrow> real \<Rightarrow> 'c \<Rightarrow> 'c) \<Rightarrow>
   (trajectory_table \<Rightarrow> 'c \<Rightarrow> real \<Rightarrow> real \<Rightarrow> string list list \<Rightarrow> 'g) \<Rightarrow>
   ('c \<Rightarrow> real \<Rightarrow> 'g \<times> 'l) \<Rightarrow>
   ('g \<Rightarrow> trajectory_table \<Rightarrow> mean_genotype_table) \<Rightarrow>
   trajectory_table \<Rightarrow> genotype_options \<Rightarrow> 'c \<Rightarrow>
   (py_error + (string \<times> series) list \<times> (string \<times> string) list \<times> 'l option) \<times> 'c" where
  "generate_genotypes update_values matlab_method hierarchical_method calculate_mean_genotype
       timepoints options pairwise_calculations =
     (let cache = update_values timepoints (genotype_detection_breakpoint options)
                    (genotype_fixed_breakpoint options) pairwise_calculations
      in if clustering_method options = ''matlab''
         then (Inr (finish_genotypes
                 (calculate_mean_genotype
                    (matlab_method timepoints cache (similarity_breakpoint options)
                       (difference_breakpoint options) (starting_genotypes options))
                    timepoints) None), cache)
         else if clustering_method options = ''hierarchy''
         then (case hierarchical_method cache (similarity_breakpoint options) of
                 (genotypes, linkage_matrix) \<Rightarrow>
                   (Inr (finish_genotypes (calculate_mean_genotype genotypes timepoints)
                           (Some linkage_matrix)), cache))
         else (Inl (ValueError (''Invalid clustering method: '' @ clustering_method options)), cache))"

text \<open>
  Modelled from the spec: \<open>PairwiseCalculation.update_values\<close> is not among the sources. By
  section 4.1 of the spec (\<open>bulk_populate\<close>) it computes the metrics of all unordered pairs of
  rows that are not yet cached and stores them under the pair. The model keeps the keys
  of the cache, in the order of \<open>itertools.combinations\<close>.
\<close>

type_synonym pairwise_cache = "(string \<times> string) list"

fun row_pairs :: "string list \<Rightarrow> (string \<times> string) list" where
  "row_pairs [] = []"
| "row_pairs (l # ls) = map (Pair l) ls @ row_pairs ls"

definition update_values :: "trajectory_table \<Rightarrow> real \<Rightarrow> real \<Rightarrow> pairwise_cache \<Rightarrow> pairwise_cache" where
  "update_values timepoints detection_cutoff fixed_cutoff cache =
     cache @ filter (\<lambda>(a, b). (a, b) \<notin> set cache \<and> (b, a) \<notin> set cache)
               (row_pairs (map fst (snd timepoints)))"

text \<open>An options value with an unknown method, and a table of two trajectories.\<close>

definition example_options :: genotype_options where
  "example_options =
     \<lparr>genotype_detection_breakpoint = 0.03, genotype_fixed_breakpoint = 0.97,
      similarity_breakpoint = 0.05, difference_breakpoint = 0.1,
      clustering_method = ''kmeans'', starting_genotypes = []\<rparr>"

definition example_trajectories :: trajectory_table where
  "example_trajectories = ([0, 1], [(''trajectory-1'', [0, 0.5]), (''trajectory-2'', [0, 0.4])])"

section \<open>Properties of the edge table\<close>

lemma edge_of_Inr:
  assumes "edge_of g = Inr r"
  shows "Identity r = name g" and "Parent r = expected_parent g" and "background g \<noteq> []"
  using assms
  by (auto simp: edge_of_def expected_parent_def Let_def split: if_splits list.splits)

lemma edge_rows_Inr:
  "edge_rows gs = Inr rs \<Longrightarrow>
     length rs = length gs \<and>
     (\<forall>i<length gs. Identity (rs ! i) = name (gs ! i) \<and> Parent (rs ! i) = expected_parent (gs ! i))"
proof (induction gs arbitrary: rs)
  case Nil
  then show ?case by simp
next
  case (Cons g gs)
  from Cons.prems obtain r rs' where r: "edge_of g = Inr r" and rs': "edge_rows gs = Inr rs'"
    and rs: "rs = r # rs'"
    by (auto split: sum.splits)
  from Cons.IH [OF rs'] have len: "length rs' = length gs"
    and ih: "\<And>i. i < length gs \<Longrightarrow>
      Identity (rs' ! i) = name (gs ! i) \<and> Parent (rs' ! i) = expected_parent (gs ! i)"
    by auto
  show ?case
  proof (intro conjI allI impI)
    show "length rs = length (g # gs)" using len rs by simp
  next
    fix i assume "i < length (g # gs)"
    then show "Identity (rs ! i) = name ((g # gs) ! i)"
      using rs ih edge_of_Inr(1) [OF r] by (cases i) auto
  next
    fix i assume "i < length (g # gs)"
    then show "Parent (rs ! i) = expected_parent ((g # gs) ! i)"
      using rs ih edge_of_Inr(2) [OF r] by (cases i) auto
  qed
qed

lemma expected_parent_not_self:
  "name g \<noteq> ''genotype-0'' \<Longrightarrow> expected_parent g \<noteq> name g"
  by (auto simp: expected_parent_def)

lemma edges_table_Inr:
  assumes "generate_ggmuller_edges_table cs = Inr table"
  shows "edge_rows (map snd cs) = Inr table"
  using assms by (auto simp: generate_ggmuller_edges_table_def split: sum.splits if_splits)

text \<open>
  C1. When the builder returns a table for a cluster map, every entry of the map has exactly
  one row whose Identity is its name; the Parent of that row is the first element of the
  background list, or \<open>genotype-0\<close> when the list has length 1 or its first element is the
  genotype's own name. Consequently no row has Parent equal to Identity. Both builders
  compute the same table.
\<close>

theorem edges_table_rows:
  assumes ret: "generate_ggmuller_edges_table cs = Inr table"
    and ok: "cluster_map_ok cs"
    and mem: "(k, g) \<in> set cs"
  shows "(\<exists>!i. i < length table \<and> Identity (table ! i) = name g) \<and>
         (\<forall>r \<in> set table. Identity r = name g \<longrightarrow> Parent r = expected_parent g) \<and>
         (\<forall>r \<in> set table. Parent r \<noteq> Identity r) \<and>
         create_ggmuller_edges cs = Inr table"
proof -
  let ?gs = "map snd cs"
  have rows: "edge_rows ?gs = Inr table" using ret by (rule edges_table_Inr)
  from edge_rows_Inr [OF rows] have len: "length table = length cs"
    and at: "\<And>i. i < length cs \<Longrightarrow>
       Identity (table ! i) = name (?gs ! i) \<and> Parent (table ! i) = expected_parent (?gs ! i)"
    by auto
  have names: "map name ?gs = map fst cs"
    using ok by (induction cs) (auto simp: cluster_map_ok_def)
  have dist: "distinct (map name ?gs)"
    unfolding names using ok by (simp add: cluster_map_ok_def)
  from mem obtain j where j: "j < length cs" and cj: "cs ! j = (k, g)"
    by (auto simp: in_set_conv_nth)
  have gj: "?gs ! j = g" using j cj by simp
  have uniq: "i = j" if "i < length table" and "Identity (table ! i) = name g" for i
  proof -
    have "name (?gs ! i) = name (?gs ! j)" using that at [of i] len gj by simp
    then have "map name ?gs ! i = map name ?gs ! j" using that(1) len j by simp
    moreover have "i < length (map name ?gs)" "j < length (map name ?gs)"
      using that(1) len j by simp_all
    ultimately show ?thesis
      using dist nth_eq_iff_index_eq by blast
  qed
  have ex1: "\<exists>!i. i < length table \<and> Identity (table ! i) = name g"
  proof (rule ex1I [of _ j])
    show "j < length table \<and> Identity (table ! j) = name g"
      using j len at [of j] gj by simp
  next
    fix i assume "i < length table \<and> Identity (table ! i) = name g"
    then show "i = j" using uniq by blast
  qed
  have par: "\<forall>r \<in> set table. Identity r = name g \<longrightarrow> Parent r = expected_parent g"
  proof (intro ballI impI)
    fix r assume "r \<in> set table" and id: "Identity r = name g"
    then obtain i where i: "i < length table" and r: "table ! i = r"
      by (auto simp: in_set_conv_nth)
    have "i = j" using uniq i r id by simp
    then show "Parent r = expected_parent g" using at [of j] j gj r by simp
  qed
  have noself: "\<forall>r \<in> set table. Parent r \<noteq> Identity r"
  proof
    fix r assume "r \<in> set table"
    then obtain i where i: "i < length table" and r: "table ! i = r"
      by (auto simp: in_set_conv_nth)
    have "name (?gs ! i) = fst (cs ! i)" using names i len by (metis length_map nth_map)
    moreover have "fst (cs ! i) \<in> set (map fst cs)" using i len by simp
    moreover have "''genotype-0'' \<notin> set (map fst cs)"
      using ok by (simp add: cluster_map_ok_def)
    ultimately have "name (?gs ! i) \<noteq> ''genotype-0''" by metis
    moreover have "Identity r = name (?gs ! i)" and "Parent r = expected_parent (?gs ! i)"
      using at [of i] i len r by auto
    ultimately show "Parent r \<noteq> Identity r"
      using expected_parent_not_self [of "?gs ! i"] by simp
  qed
  have same: "create_ggmuller_edges cs = Inr table"
    using ret by (simp add: create_ggmuller_edges_def generate_ggmuller_edges_table_def)
  show ?thesis using ex1 par noself same by blast
qed

text \<open>An instance of C1: two nested genotypes, the first its own background.\<close>

theorem edges_table_rows_witness:
  "generate_ggmuller_edges_table
     [(''genotype-1'', \<lparr>name = ''genotype-1'', background = [''genotype-1'']\<rparr>),
      (''genotype-2'', \<lparr>name = ''genotype-2'', background = [''genotype-1'', ''genotype-2'']\<rparr>)]
   = Inr [\<lparr>Parent = ''genotype-0'', Identity = ''genotype-1''\<rparr>,
          \<lparr>Parent = ''genotype-1'', Identity = ''genotype-2''\<rparr>] \<and>
   (\<exists>!i. i < 2 \<and>
      Identity ([\<lparr>Parent = ''genotype-0'', Identity = ''genotype-1''\<rparr>,
                 \<lparr>Parent = ''genotype-1'', Identity = ''genotype-2''\<rparr>] ! i) = ''genotype-2'')"
proof -
  let ?g1 = "\<lparr>name = ''genotype-1'', background = [''genotype-1'']\<rparr>"
  let ?g2 = "\<lparr>name = ''genotype-2'', background = [''genotype-1'', ''genotype-2'']\<rparr>"
  let ?cs = "[(''genotype-1'', ?g1), (''genotype-2'', ?g2)]"
  let ?t = "[\<lparr>Parent = ''genotype-0'', Identity = ''genotype-1''\<rparr>,
             \<lparr>Parent = ''genotype-1'', Identity = ''genotype-2''\<rparr>]"
  have ret: "generate_ggmuller_edges_table ?cs = Inr ?t"
    by (simp add: generate_ggmuller_edges_table_def edge_of_def)
  have ok: "cluster_map_ok ?cs" by (simp add: cluster_map_ok_def)
  have mem: "(''genotype-2'', ?g2) \<in> set ?cs" by simp
  from edges_table_rows [OF ret ok mem] have "\<exists>!i. i < length ?t \<and> Identity (?t ! i) = name ?g2"
    by blast
  then have "\<exists>!i. i < 2 \<and> Identity (?t ! i) = ''genotype-2''"
    by (simp add: numeral_2_eq_2)
  with ret show ?thesis by blast
qed

section \<open>Properties of the population table\<close>

lemma generate_population_Inr:
  assumes "generate_ggmuller_population_table cols mg edges c = Inr out"
  shows "\<exists>table. table \<noteq> [] \<and> out = table @ root_rows table \<and>
     population_rows cols (filter (\<lambda>r. fst r \<in> set (map Identity edges)) mg) (children_map edges) c
       (filter (\<lambda>r. fst r \<in> set (map Identity edges)) mg) = Inr table"
  using assms
  by (auto simp: generate_ggmuller_population_table_def Let_def split: sum.splits if_splits)

lemma Generation_root_row [simp]: "Generation (root_row table g) = g"
  by (simp add: root_row_def Let_def)

lemma Identity_root_row [simp]: "pop_Identity (root_row table g) = ''genotype-0''"
  by (simp add: root_row_def Let_def)

lemma Population_root_row:
  "Population (root_row table g) = max 0 (100 - generation_population table g)"
  by (simp add: root_row_def Let_def max_def)

lemma generations_root_rows:
  "map Generation (root_rows table) = sort (remdups (map Generation table))"
  by (simp add: root_rows_def comp_def)

lemma root_population_at:
  "distinct gs \<Longrightarrow>
   sum_list (map Population (filter (\<lambda>r. Generation r = g) (map (root_row table) gs))) =
     (if g \<in> set gs then Population (root_row table g) else 0)"
  by (induction gs) auto

lemma generation_population_append:
  "generation_population (xs @ ys) g = generation_population xs g + generation_population ys g"
  by (simp add: generation_population_def)

lemma generation_population_root_rows:
  "generation_population (root_rows table) g =
     (if g \<in> set (map Generation table) then Population (root_row table g) else 0)"
  unfolding generation_population_def root_rows_def
  by (subst root_population_at) simp_all

lemma distinct_index_ex1:
  assumes "distinct (map f xs)" and "g \<in> set (map f xs)"
  shows "\<exists>!i. i < length xs \<and> f (xs ! i) = g"
proof -
  from assms(2) obtain j where j: "j < length xs" and fj: "f (xs ! j) = g"
    by (auto simp: in_set_conv_nth)
  show ?thesis
  proof (rule ex1I [of _ j])
    show "j < length xs \<and> f (xs ! j) = g" using j fj by simp
  next
    fix i assume i: "i < length xs \<and> f (xs ! i) = g"
    then have "map f xs ! i = map f xs ! j" using j fj by simp
    moreover have "i < length (map f xs)" "j < length (map f xs)" using i j by simp_all
    ultimately show "i = j" using assms(1) nth_eq_iff_index_eq by blast
  qed
qed

text \<open>
  C2. The returned table is the rows built for the genotypes followed by the synthetic rows.
  For every generation occurring in the built rows there is exactly one synthetic row; it
  is named \<open>genotype-0\<close> and its Population is 100 minus the sum of the built rows of
  that generation when that sum is at most 100, and 0 otherwise, that is
  \<open>max 0 (100 - sum)\<close>. Where the built rows sum to at most 100, all rows of the generation
  sum to exactly 100. Populations are exact reals here.
\<close>

theorem population_root_rows:
  assumes ret: "generate_ggmuller_population_table cols mean_genotypes edges cutoff = Inr out"
  shows "\<exists>table synth.
           out = table @ synth \<and>
           population_rows cols (filter (\<lambda>r. fst r \<in> set (map Identity edges)) mean_genotypes)
             (children_map edges) cutoff
             (filter (\<lambda>r. fst r \<in> set (map Identity edges)) mean_genotypes) = Inr table \<and>
           (\<forall>g \<in> set (map Generation table).
              (\<exists>!i. i < length synth \<and> Generation (synth ! i) = g) \<and>
              (generation_population table g \<le> 100 \<longrightarrow> generation_population out g = 100)) \<and>
           (\<forall>r \<in> set synth.
              pop_Identity r = ''genotype-0'' \<and>
              Generation r \<in> set (map Generation table) \<and>
              Population r =
                (if generation_population table (Generation r) \<le> 100
                 then 100 - generation_population table (Generation r) else 0) \<and>
              Population r = max 0 (100 - generation_population table (Generation r)))"
proof -
  from generate_population_Inr [OF ret] obtain table where
    out: "out = table @ root_rows table" and
    tab: "population_rows cols (filter (\<lambda>r. fst r \<in> set (map Identity edges)) mean_genotypes)
       (children_map edges) cutoff
       (filter (\<lambda>r. fst r \<in> set (map Identity edges)) mean_genotypes) = Inr table"
    by blast
  let ?synth = "root_rows table"
  have gens: "map Generation ?synth = sort (remdups (map Generation table))"
    by (rule generations_root_rows)
  have dist: "distinct (map Generation ?synth)" unfolding gens by simp
  have sets: "set (map Generation ?synth) = set (map Generation table)" unfolding gens by simp
  have one: "\<exists>!i. i < length ?synth \<and> Generation (?synth ! i) = g"
    if "g \<in> set (map Generation table)" for g
    using distinct_index_ex1 [OF dist] that sets by blast
  have total: "generation_population out g = 100"
    if "g \<in> set (map Generation table)" and "generation_population table g \<le> 100" for g
    using that unfolding out generation_population_append generation_population_root_rows
    by (simp add: Population_root_row)
  have synth: "pop_Identity r = ''genotype-0'' \<and>
      Generation r \<in> set (map Generation table) \<and>
      Population r =
        (if generation_population table (Generation r) \<le> 100
         then 100 - generation_population table (Generation r) else 0) \<and>
      Population r = max 0 (100 - generation_population table (Generation r))"
    if "r \<in> set ?synth" for r
  proof -
    from that obtain g where g: "g \<in> set (map Generation table)" and r: "r = root_row table g"
      by (auto simp: root_rows_def)
    show ?thesis unfolding r using g by (simp add: root_row_def Let_def max_def)
  qed
  show ?thesis
    using out tab one total synth by blast
qed

lemma foldl_add_child:
  "foldl add_child m edges p =
     (if filter (\<lambda>e. Parent e = p) edges = [] then m p
      else Some ((case m p of None \<Rightarrow> [] | Some l \<Rightarrow> l) @
                 map Identity (filter (\<lambda>e. Parent e = p) edges)))"
  by (induction edges arbitrary: m) (auto simp: add_child_def)

lemma children_map_eq:
  "children_map edges p =
     (if p \<in> set (map Parent edges) then Some (map Identity (filter (\<lambda>e. Parent e = p) edges))
      else None)"
  unfolding children_map_def foldl_add_child
  by (auto simp: filter_empty_conv)

lemma loc_rows_set:
  "loc_rows fr ls = Inr sel \<Longrightarrow> set sel = {r \<in> set fr. fst r \<in> set ls}"
proof (induction ls arbitrary: sel)
  case Nil
  then show ?case by simp
next
  case (Cons l ls)
  from Cons.prems obtain rest where rest: "loc_rows fr ls = Inr rest"
    and sel: "sel = filter (\<lambda>r. fst r = l) fr @ rest"
    by (auto split: list.splits sum.splits)
  show ?case unfolding sel using Cons.IH [OF rest] by auto
qed

lemma parent_frequencies_set:
  "set (parent_frequencies cols genotype sel cutoff) =
     {(cols ! j, floor_value cutoff (genotype ! j - column_max sel j)) | j.
        j < length cols \<and> genotype ! j > cutoff}"
  by (auto simp: parent_frequencies_def Let_def floor_value_def split: option.splits if_splits)

lemma population_rows_set:
  "population_rows cols m ch c gs = Inr table \<Longrightarrow>
     (\<forall>g \<in> set gs. \<exists>rs. genotype_rows cols m ch c g = Inr rs) \<and>
     set table = {r. \<exists>g \<in> set gs. \<exists>rs. genotype_rows cols m ch c g = Inr rs \<and> r \<in> set rs}"
proof (induction gs arbitrary: table)
  case Nil
  then show ?case by simp
next
  case (Cons g gs)
  from Cons.prems obtain rs rest where rs: "genotype_rows cols m ch c g = Inr rs"
    and rest: "population_rows cols m ch c gs = Inr rest" and table: "table = rs @ rest"
    by (auto split: sum.splits)
  show ?case unfolding table using Cons.IH [OF rest] rs by auto
qed

lemma genotype_rows_Identity:
  "genotype_rows cols m ch c g = Inr rs \<Longrightarrow> r \<in> set rs \<Longrightarrow> pop_Identity r = fst g"
  by (cases g) (auto simp: genotype_rows_def split: option.splits sum.splits)

lemma genotype_rows_leaf:
  assumes "genotype_rows cols m ch c (label, row) = Inr rs" and "ch label = None"
    and "length row = length cols"
  shows "set rs = {\<lparr>pop_Identity = label, Generation = cols ! j, Population = row ! j * 100\<rparr> | j.
           j < length cols}"
proof -
  have rs: "rs = map (\<lambda>(timepoint, frequency).
      \<lparr>pop_Identity = label, Generation = timepoint, Population = frequency * 100\<rparr>) (zip cols row)"
    using assms(1,2) by (simp add: genotype_rows_def)
  have "set (zip cols row) = {(cols ! j, row ! j) | j. j < length cols}"
    using assms(3) by (auto simp: set_zip)
  then show ?thesis unfolding rs by auto
qed

lemma genotype_rows_parent:
  assumes "genotype_rows cols m ch c (label, row) = Inr rs" and "ch label = Some cs"
  shows "\<exists>sel. loc_rows m cs = Inr sel \<and>
     set rs = {\<lparr>pop_Identity = label, Generation = cols ! j,
                Population = floor_value c (row ! j - column_max sel j) * 100\<rparr> | j.
               j < length cols \<and> row ! j > c}"
proof -
  from assms obtain sel where sel: "loc_rows m cs = Inr sel"
    and rs: "rs = map (\<lambda>(timepoint, frequency).
      \<lparr>pop_Identity = label, Generation = timepoint, Population = frequency * 100\<rparr>)
        (parent_frequencies cols row sel c)"
    by (auto simp: genotype_rows_def split: sum.splits)
  have "set rs = (\<lambda>(timepoint, frequency).
      \<lparr>pop_Identity = label, Generation = timepoint, Population = frequency * 100\<rparr>) `
        {(cols ! j, floor_value c (row ! j - column_max sel j)) | j. j < length cols \<and> row ! j > c}"
    unfolding rs set_map parent_frequencies_set ..
  then show ?thesis using sel by auto
qed

lemma children_selection:
  assumes "loc_rows (filter (\<lambda>r. fst r \<in> set (map Identity edges)) mg)
             (map Identity (filter (\<lambda>e. Parent e = label) edges)) = Inr sel"
  shows "column_max sel j = children_max mg edges label j"
proof -
  have "set sel = set (filter (\<lambda>r. list_ex (\<lambda>e. Parent e = label \<and> Identity e = fst r) edges) mg)"
    unfolding loc_rows_set [OF assms] by (auto simp: list_ex_iff)
  then show ?thesis by (simp add: column_max_def children_max_def)
qed

text \<open>
  C3 (as amended). For a genotype that is a Parent in the edge table, the rows built for it
  are those of the timepoints where its frequency exceeds the detection cutoff, and the
  Population there is 100 times the frequency minus the largest frequency among its
  children, or 100 times 0.01 when that difference is below the detection cutoff. For a
  genotype without children there is one row per timepoint, with 100 times the frequency.
\<close>

theorem population_values:
  assumes ret: "generate_ggmuller_population_table cols mean_genotypes edges cutoff = Inr out"
    and ok: "frame_ok cols mean_genotypes"
    and mem: "(label, row) \<in> set mean_genotypes"
    and inn: "label \<in> set (map Identity edges)"
  shows "\<exists>table. out = table @ root_rows table \<and>
     population_rows cols (filter (\<lambda>r. fst r \<in> set (map Identity edges)) mean_genotypes)
       (children_map edges) cutoff
       (filter (\<lambda>r. fst r \<in> set (map Identity edges)) mean_genotypes) = Inr table \<and>
     (\<forall>r. (r \<in> set table \<and> pop_Identity r = label) =
        (if label \<in> set (map Parent edges)
         then \<exists>j<length cols. row ! j > cutoff \<and>
                r = \<lparr>pop_Identity = label, Generation = cols ! j,
                     Population = floor_value cutoff
                       (row ! j - children_max mean_genotypes edges label j) * 100\<rparr>
         else \<exists>j<length cols.
                r = \<lparr>pop_Identity = label, Generation = cols ! j, Population = row ! j * 100\<rparr>))"
proof -
  let ?m = "filter (\<lambda>r. fst r \<in> set (map Identity edges)) mean_genotypes"
  let ?ch = "children_map edges"
  from generate_population_Inr [OF ret] obtain table where
    out: "out = table @ root_rows table" and
    tab: "population_rows cols ?m ?ch cutoff ?m = Inr table"
    by blast
  have g: "(label, row) \<in> set ?m" using mem inn by simp
  have len: "length row = length cols"
    using ok mem by (auto simp: frame_ok_def list_all_iff)
  have uniq: "row' = row" if "(label, row') \<in> set ?m" for row'
  proof -
    have "distinct (map fst mean_genotypes)" using ok by (simp add: frame_ok_def)
    moreover have "(label, row') \<in> set mean_genotypes" using that by simp
    ultimately show ?thesis using mem by (meson eq_key_imp_eq_value)
  qed
  from population_rows_set [OF tab] g obtain rs where
    rs: "genotype_rows cols ?m ?ch cutoff (label, row) = Inr rs"
    and all: "set table = {r. \<exists>g \<in> set ?m. \<exists>rs. genotype_rows cols ?m ?ch cutoff g = Inr rs \<and> r \<in> set rs}"
    by blast
  have mine: "(r \<in> set table \<and> pop_Identity r = label) = (r \<in> set rs)" for r
  proof
    assume a: "r \<in> set table \<and> pop_Identity r = label"
    then obtain g' rs' where g': "g' \<in> set ?m"
      and rs': "genotype_rows cols ?m ?ch cutoff g' = Inr rs'" and r: "r \<in> set rs'"
      using all by blast
    have "fst g' = label" using genotype_rows_Identity [OF rs' r] a by simp
    then have "g' = (label, row)" using uniq [of "snd g'"] g' by (cases g') auto
    then show "r \<in> set rs" using rs rs' r by simp
  next
    assume "r \<in> set rs"
    then show "r \<in> set table \<and> pop_Identity r = label"
      using all g rs genotype_rows_Identity [OF rs] by auto
  qed
  show ?thesis
  proof (cases "label \<in> set (map Parent edges)")
    case True
    then have ch: "?ch label = Some (map Identity (filter (\<lambda>e. Parent e = label) edges))"
      by (simp add: children_map_eq)
    from genotype_rows_parent [OF rs ch] obtain sel where
      sel: "loc_rows ?m (map Identity (filter (\<lambda>e. Parent e = label) edges)) = Inr sel"
      and set_rs: "set rs = {\<lparr>pop_Identity = label, Generation = cols ! j,
                Population = floor_value cutoff (row ! j - column_max sel j) * 100\<rparr> | j.
               j < length cols \<and> row ! j > cutoff}"
      by blast
    have "\<forall>r. (r \<in> set table \<and> pop_Identity r = label) =
        (\<exists>j<length cols. row ! j > cutoff \<and>
            r = \<lparr>pop_Identity = label, Generation = cols ! j,
                 Population = floor_value cutoff
                   (row ! j - children_max mean_genotypes edges label j) * 100\<rparr>)"
      unfolding mine set_rs children_selection [OF sel] by auto
    then show ?thesis using out tab True by auto
  next
    case False
    then have ch: "?ch label = None" by (simp add: children_map_eq)
    have "\<forall>r. (r \<in> set table \<and> pop_Identity r = label) =
        (\<exists>j<length cols.
            r = \<lparr>pop_Identity = label, Generation = cols ! j, Population = row ! j * 100\<rparr>)"
      unfolding mine genotype_rows_leaf [OF rs ch len] by auto
    then show ?thesis using out tab False by auto
  qed
qed

lemma example_children:
  "children_map example_edges = [''genotype-0'' \<mapsto> [''genotype-1''], ''genotype-1'' \<mapsto> [''genotype-2'']]"
  by (simp add: children_map_def example_edges_def add_child_def)

lemma example_population_rows:
  "population_rows [0, 1, 2] (filter (\<lambda>r. fst r \<in> set (map Identity example_edges)) example_genotypes)
     (children_map example_edges) 0.03
     (filter (\<lambda>r. fst r \<in> set (map Identity example_edges)) example_genotypes) = Inr example_table"
  unfolding example_children
  by (simp add: example_genotypes_def example_edges_def example_table_def genotype_rows_def
      parent_frequencies_def column_max_def Let_def)

lemma example_root_rows: "root_rows example_table = example_roots"
  by (simp add: root_rows_def root_row_def generation_population_def example_table_def
      example_roots_def Let_def)

lemma example_population_table:
  "generate_ggmuller_population_table [0, 1, 2] example_genotypes example_edges 0.03 =
     Inr (example_table @ example_roots)"
proof -
  have "example_table \<noteq> []" by (simp add: example_table_def)
  then show ?thesis
    unfolding generate_ggmuller_population_table_def Let_def example_population_rows
    by (simp add: example_root_rows)
qed

text \<open>An instance of C2: generation 2 of the example, where the parent is floored.\<close>

theorem population_root_rows_witness:
  "generate_ggmuller_population_table [0, 1, 2] example_genotypes example_edges 0.03 =
     Inr (example_table @ example_roots) \<and>
   generation_population example_table 2 = 89 \<and>
   generation_population (example_table @ example_roots) 2 = 100"
proof -
  from population_root_rows [OF example_population_table] obtain table synth where
    out: "example_table @ example_roots = table @ synth" and
    tab: "population_rows [0, 1, 2]
       (filter (\<lambda>r. fst r \<in> set (map Identity example_edges)) example_genotypes)
       (children_map example_edges) 0.03
       (filter (\<lambda>r. fst r \<in> set (map Identity example_edges)) example_genotypes) = Inr table" and
    tot: "\<forall>g \<in> set (map Generation table).
       generation_population table g \<le> 100 \<longrightarrow>
       generation_population (example_table @ example_roots) g = 100"
    by blast
  have table: "table = example_table" using tab example_population_rows by simp
  have pop: "generation_population example_table 2 = 89"
    by (simp add: generation_population_def example_table_def)
  have "2 \<in> set (map Generation example_table)" by (simp add: example_table_def)
  with tot table pop have "generation_population (example_table @ example_roots) 2 = 100"
    by auto
  with example_population_table pop show ?thesis by simp
qed

text \<open>An instance of C3: the parent at generation 2.\<close>

theorem population_values_witness:
  "frame_ok [0, 1, 2] example_genotypes \<and>
   \<lparr>pop_Identity = ''genotype-1'', Generation = 2, Population = 1\<rparr> \<in> set example_table \<and>
   floor_value 0.03 ([0, 0.5, 0.9] ! 2 - children_max example_genotypes example_edges ''genotype-1'' 2) * 100 = 1"
proof -
  have ok: "frame_ok [0, 1, 2] example_genotypes"
    by (simp add: frame_ok_def example_genotypes_def)
  have mem: "(''genotype-1'', [0, 0.5, 0.9]) \<in> set example_genotypes"
    by (simp add: example_genotypes_def)
  have inn: "''genotype-1'' \<in> set (map Identity example_edges)"
    by (simp add: example_edges_def)
  have par: "''genotype-1'' \<in> set (map Parent example_edges)"
    by (simp add: example_edges_def)
  from population_values [OF example_population_table ok mem inn] obtain table where
    tab: "population_rows [0, 1, 2]
       (filter (\<lambda>r. fst r \<in> set (map Identity example_edges)) example_genotypes)
       (children_map example_edges) 0.03
       (filter (\<lambda>r. fst r \<in> set (map Identity example_edges)) example_genotypes) = Inr table" and
    vals: "\<And>r. (r \<in> set table \<and> pop_Identity r = ''genotype-1'') =
        (\<exists>j<length [0, 1, 2::int]. [0, 0.5, 0.9] ! j > (0.03::real) \<and>
            r = \<lparr>pop_Identity = ''genotype-1'', Generation = [0, 1, 2] ! j,
                 Population = floor_value 0.03
                   ([0, 0.5, 0.9] ! j - children_max example_genotypes example_edges ''genotype-1'' j) * 100\<rparr>)"
    using par by auto
  have table: "table = example_table" using tab example_population_rows by simp
  have cm: "children_max example_genotypes example_edges ''genotype-1'' 2 = 0.88"
    by (simp add: children_max_def example_genotypes_def example_edges_def)
  have fv: "floor_value 0.03 ([0, 0.5, 0.9] ! 2 - children_max example_genotypes example_edges ''genotype-1'' 2) * 100 = 1"
    unfolding cm by (simp add: floor_value_def)
  have "\<exists>j<length [0, 1, 2::int]. [0, 0.5, 0.9] ! j > (0.03::real) \<and>
      \<lparr>pop_Identity = ''genotype-1'', Generation = 2, Population = 1\<rparr> =
        \<lparr>pop_Identity = ''genotype-1'', Generation = [0, 1, 2] ! j,
         Population = floor_value 0.03
           ([0, 0.5, 0.9] ! j - children_max example_genotypes example_edges ''genotype-1'' j) * 100\<rparr>"
    using fv by (intro exI [of _ 2]) simp
  then have "\<lparr>pop_Identity = ''genotype-1'', Generation = 2, Population = 1\<rparr> \<in> set table"
    using vals by blast
  with ok fv table show ?thesis by simp
qed

text \<open>
  C3 as stated fails: at generation 2 the parent exceeds its child by 0.02, which is below
  the cutoff 0.03, and its Population is 1; the maximum of any floor and 0.02, times 100, is
  at least 2.
\<close>

theorem population_floor_counterexample:
  "generate_ggmuller_population_table [0, 1, 2]
     [(''genotype-1'', [0, 0.5, 0.9]), (''genotype-2'', [0, 0.1, 0.88])]
     [\<lparr>Parent = ''genotype-0'', Identity = ''genotype-1''\<rparr>,
      \<lparr>Parent = ''genotype-1'', Identity = ''genotype-2''\<rparr>] 0.03 =
   Inr [\<lparr>pop_Identity = ''genotype-1'', Generation = 1, Population = 40\<rparr>,
        \<lparr>pop_Identity = ''genotype-1'', Generation = 2, Population = 1\<rparr>,
        \<lparr>pop_Identity = ''genotype-2'', Generation = 0, Population = 0\<rparr>,
        \<lparr>pop_Identity = ''genotype-2'', Generation = 1, Population = 10\<rparr>,
        \<lparr>pop_Identity = ''genotype-2'', Generation = 2, Population = 88\<rparr>,
        \<lparr>pop_Identity = ''genotype-0'', Generation = 0, Population = 100\<rparr>,
        \<lparr>pop_Identity = ''genotype-0'', Generation = 1, Population = 50\<rparr>,
        \<lparr>pop_Identity = ''genotype-0'', Generation = 2, Population = 11\<rparr>] \<and>
   (1::real) < (0.9 - 0.88) * 100"
  using example_population_table
  by (simp add: example_genotypes_def example_edges_def example_table_def example_roots_def)

section \<open>Properties of the background checks\<close>

lemma drop_by_label:
  assumes "distinct (map fst df)"
  shows "filter (\<lambda>x. fst x \<notin> set (map fst (filter P df))) df = filter (\<lambda>x. \<not> P x) df"
proof (rule filter_cong [OF refl])
  fix x assume x: "x \<in> set df"
  have "fst x \<in> set (map fst (filter P df)) \<longleftrightarrow> P x"
  proof
    assume "fst x \<in> set (map fst (filter P df))"
    then obtain y where y: "y \<in> set df" "P y" "fst y = fst x" by auto
    then have "y = x" using assms x by (metis eq_key_imp_eq_value prod.collapse)
    then show "P x" using y by simp
  next
    assume "P x"
    then show "fst x \<in> set (map fst (filter P df))" using x by auto
  qed
  then show "(fst x \<notin> set (map fst (filter P df))) = (\<not> P x)" by simp
qed

lemma concat_axis1_index:
  "map fst (concat_axis1 left right) = take (length right) (map fst left)"
  unfolding concat_axis1_def
proof (induction left arbitrary: right)
  case Nil
  then show ?case by simp
next
  case (Cons a left)
  then show ?case by (cases right) (auto split: prod.splits)
qed

lemma get_detected_points_filter:
  assumes "distinct (map fst left)"
  shows "get_detected_points left right dlimit =
     filter (\<lambda>(index, l, r). l \<ge> dlimit \<or> r \<ge> dlimit) (concat_axis1 left right)"
proof -
  have d: "distinct (map fst (concat_axis1 left right))"
    unfolding concat_axis1_index using assms by (rule distinct_take)
  have "get_detected_points left right dlimit =
      filter (\<lambda>x. fst x \<notin> set (map fst (filter (\<lambda>(index, l, r). l < dlimit \<and> r < dlimit)
         (concat_axis1 left right)))) (concat_axis1 left right)"
    by (simp add: get_detected_points_def Let_def case_prod_unfold)
  also have "\<dots> = filter (\<lambda>x. \<not> (case x of (index, l, r) \<Rightarrow> l < dlimit \<and> r < dlimit))
      (concat_axis1 left right)"
    by (rule drop_by_label [OF d])
  also have "\<dots> = filter (\<lambda>(index, l, r). l \<ge> dlimit \<or> r \<ge> dlimit) (concat_axis1 left right)"
    by (rule filter_cong) (auto simp: not_less)
  finally show ?thesis .
qed

lemma concat_axis1_swap:
  assumes "map fst left = map fst right"
  shows "concat_axis1 right left = map (\<lambda>(index, l, r). (index, r, l)) (concat_axis1 left right)"
proof -
  from assms have "length left = length right" by (metis length_map)
  then show ?thesis using assms
    by (induction left right rule: list_induct2) (auto simp: concat_axis1_def)
qed

lemma swap_dropped_labels:
  "map fst (filter (\<lambda>(index :: int, l :: real, r :: real). l < dlimit \<and> r < dlimit)
      (map (\<lambda>(index, l, r). (index, r, l)) df)) =
   map fst (filter (\<lambda>(index, l, r). l < dlimit \<and> r < dlimit) df)"
  by (induction df) (auto simp: case_prod_unfold)

lemma swap_filter_labels:
  "filter (\<lambda>(index :: int, l :: real, r :: real). index \<notin> S) (map (\<lambda>(index, l, r). (index, r, l)) df) =
   map (\<lambda>(index, l, r). (index, r, l)) (filter (\<lambda>(index, l, r). index \<notin> S) df)"
  by (induction df) (auto simp: case_prod_unfold)

lemma get_detected_points_swap:
  assumes "map fst left = map fst right"
  shows "get_detected_points right left dlimit =
     map (\<lambda>(index, l, r). (index, r, l)) (get_detected_points left right dlimit)"
proof -
  let ?sw = "\<lambda>(index, l, r). (index, r, l) :: int \<times> real \<times> real"
  let ?df = "concat_axis1 left right"
  let ?P = "\<lambda>(index :: int, l :: real, r :: real). l < dlimit \<and> r < dlimit"
  show ?thesis
    unfolding get_detected_points_def Let_def concat_axis1_swap [OF assms] swap_dropped_labels
    by (rule swap_filter_labels)
qed

lemma additive_symmetric:
  assumes "map fst left = map fst right"
  shows "check_additive_background left right dc sc = check_additive_background right left dc sc"
proof -
  have "map (\<lambda>(index, l, r). l + r) (get_detected_points right left 0.03) =
        map (\<lambda>(index, l, r). l + r) (get_detected_points left right 0.03)"
    unfolding get_detected_points_swap [OF assms]
    by (simp add: case_prod_unfold comp_def add.commute)
  then show ?thesis unfolding check_additive_background_def Let_def by (simp only:)
qed

lemma subtractive_symmetric:
  assumes "map fst left = map fst right"
  shows "check_subtractive_background left right dc sc = check_subtractive_background right left dc sc"
proof -
  have "map (\<lambda>(index, l, r). \<bar>l - r\<bar>) (get_detected_points right left 0.03) =
        map (\<lambda>(index, l, r). \<bar>l - r\<bar>) (get_detected_points left right 0.03)"
    unfolding get_detected_points_swap [OF assms]
    by (simp add: case_prod_unfold comp_def abs_minus_commute)
  then show ?thesis unfolding check_subtractive_background_def Let_def by (simp only:)
qed

lemma example_detected:
  "get_detected_points example_A example_B 0.03 = [(1, 0.5, 0.5), (2, 0.9, 0.9), (3, 0.9, 0.9)]"
  by code_simp

lemma example_sums:
  "map (\<lambda>(index, l, r). l + r) [(1 :: int, 0.5 :: real, 0.5 :: real), (2, 0.9, 0.9), (3, 0.9, 0.9)] =
     [1, 1.8, 1.8]"
  by simp

lemma sqrt_16_225: "sqrt (16 / 225) = 4 / 15"
  by (rule real_sqrt_unique) (simp_all add: power2_eq_square)

lemma example_mean: "mean [1, 1.8, 1.8] = 23 / 15"
  by code_simp

lemma example_var: "var_ddof1 [1, 1.8, 1.8] = 16 / 75"
  by code_simp

lemma student_2_2: "student_t_two_sided 2 2 = 1 - 2 / sqrt 6"
proof -
  have a: "(2 / sqrt 2)\<^sup>2 = (2::real)" by (simp add: power2_eq_square)
  have b: "sqrt 2 * sqrt 3 = sqrt (6::real)"
    by (simp add: real_sqrt_mult [symmetric])
  have c: "(2::nat) div 2 = Suc 0" by simp
  have "student_t_two_sided 2 2 = 1 - 2 / sqrt 2 / sqrt 3"
    unfolding student_t_two_sided_def Let_def c by (simp add: a)
  also have "\<dots> = 1 - 2 / sqrt 6" using b by (simp add: field_simps)
  finally show ?thesis .
qed

lemma example_ttest: "ttest_1samp [1, 1.8, 1.8] 1 = Num (1 - 2 / sqrt 6)"
proof -
  have n: "length [1, 1.8, 1.8 :: real] = 3" by simp
  have den: "sqrt (16 / 75 / real 3) = 4 / 15"
    using sqrt_16_225 by simp
  have t: "(23 / 15 - 1) / (4 / 15) = (2::real)" by simp
  have df: "(3::nat) - 1 = 2" by simp
  show ?thesis
    unfolding ttest_1samp_def Let_def n example_mean example_var den t df
    by (simp add: student_2_2)
qed

lemma sqrt6_bound: "2 / sqrt 6 < (9 / 10 :: real)"
proof -
  have "(20 / 9 :: real) < sqrt 6" by (rule real_less_rsqrt) (simp add: power2_eq_square)
  then show ?thesis by (simp add: field_simps)
qed

lemma example_additive: "check_additive_background example_A example_B dc sc = True"
proof -
  have "\<not> pf_le (pf_half (Num (1 - 2 / sqrt 6))) 0.05"
    using sqrt6_bound by simp
  then show ?thesis
    unfolding check_additive_background_def Let_def example_detected example_sums
    by (simp only: example_ttest list.simps if_True simp_thms)
qed

lemma centered_products:
  "(\<Sum>(x, y)\<leftarrow>ps. (x - a) * (y - b)) =
     (\<Sum>(x, y)\<leftarrow>ps. x * y) - b * sum_list (map fst ps) - a * sum_list (map snd ps)
       + real (length ps) * a * b"
  by (induction ps) (auto simp: algebra_simps)

lemma covariance_formula:
  assumes "2 \<le> length ps"
  shows "(\<Sum>(x, y)\<leftarrow>ps. (x - mean (map fst ps)) * (y - mean (map snd ps))) =
     (\<Sum>(x, y)\<leftarrow>ps. x * y) - real (length ps) * mean (map fst ps) * mean (map snd ps)"
proof -
  have n: "real (length ps) \<noteq> 0" using assms by auto
  have sx: "sum_list (map fst ps) = real (length ps) * mean (map fst ps)"
    using n by (simp add: mean_def)
  have sy: "sum_list (map snd ps) = real (length ps) * mean (map snd ps)"
    using n by (simp add: mean_def)
  show ?thesis
    unfolding centered_products sx sy by (simp add: algebra_simps)
qed

lemma series_cov_sample:
  "series_cov left right =
     (if length (zip left right) < 2 then NaN
      else Num (sample_covariance (map snd left) (map snd right)))"
proof (cases "length (zip left right) < 2")
  case True
  then show ?thesis by (simp add: series_cov_def Let_def)
next
  case False
  let ?ps = "zip (map snd left) (map snd right)"
  have len: "2 \<le> length ?ps" using False by auto
  show ?thesis
    using False covariance_formula [OF len]
    by (simp add: series_cov_def sample_covariance_def Let_def)
qed

text \<open>
  C6 (as amended). The derivative check returns the sample covariance of the two series
  over all their timepoints, whatever the detection cutoff (NaN for fewer than two
  timepoints). \<open>apply_genotype_checks\<close> evaluates it only when the subtractive check is
  False; the delta is None when the subtractive check is True.
\<close>

theorem derivative_check_covariance:
  "check_derivative_background left right detection_cutoff =
     (if length (zip left right) < 2 then NaN
      else Num (sample_covariance (map snd left) (map snd right))) \<and>
   apply_genotype_checks type_trajectory test_trajectory options =
     (check_additive_background type_trajectory test_trajectory
        (additive_background_double_cutoff options) (additive_background_single_cutoff options),
      check_subtractive_background type_trajectory test_trajectory
        (subtractive_background_double_cutoff options) (subtractive_background_single_cutoff options),
      if check_subtractive_background type_trajectory test_trajectory
           (subtractive_background_double_cutoff options) (subtractive_background_single_cutoff options)
      then None
      else Some (check_derivative_background type_trajectory test_trajectory
                   (derivative_detection_cutoff options)))"
proof
  show "check_derivative_background left right detection_cutoff =
     (if length (zip left right) < 2 then NaN
      else Num (sample_covariance (map snd left) (map snd right)))"
    unfolding check_derivative_background_def by (rule series_cov_sample)
next
  show "apply_genotype_checks type_trajectory test_trajectory options =
     (check_additive_background type_trajectory test_trajectory
        (additive_background_double_cutoff options) (additive_background_single_cutoff options),
      check_subtractive_background type_trajectory test_trajectory
        (subtractive_background_double_cutoff options) (subtractive_background_single_cutoff options),
      if check_subtractive_background type_trajectory test_trajectory
           (subtractive_background_double_cutoff options) (subtractive_background_single_cutoff options)
      then None
      else Some (check_derivative_background type_trajectory test_trajectory
                   (derivative_detection_cutoff options)))"
    unfolding apply_genotype_checks_def Let_def ..
qed

text \<open>
  C6 as stated fails: for two series undetected at timepoint 0, the check returns the
  covariance over all three timepoints, 1/4; over the detected timepoints it is 1/8.
\<close>

theorem derivative_region_counterexample:
  "check_derivative_background [(0, 0), (1, 0.5), (2, 1)] [(0, 0), (1, 0.5), (2, 1)] 0.03 = Num (1 / 4) \<and>
   spec_detected_covariance [(0, 0), (1, 0.5), (2, 1)] [(0, 0), (1, 0.5), (2, 1)] 0.03 = Num (1 / 8)"
  by code_simp

text \<open>
  C4 (as amended). The additive check keeps the timepoints where at least one series
  reaches 0.03, tests the sums against the mean 1, halves the p-value, and returns True
  unless the halved p-value is at most 0.05. For the two trajectories of the example, the
  detected points are 1, 2, 3, the sums are 1.0, 1.8, 1.8, and the check returns True: the
  statistic is 2 with two degrees of freedom, and the halved p-value exceeds 0.05.
\<close>

theorem additive_check_ttest:
  assumes "distinct (map fst left)"
  shows "check_additive_background left right double_cutoff single_cutoff =
     (\<not> pf_le (pf_half
         (if filter (\<lambda>(index, l, r). l \<ge> 0.03 \<or> r \<ge> 0.03) (concat_axis1 left right) = []
          then Num 0
          else ttest_1samp (map (\<lambda>(index, l, r). l + r)
                 (filter (\<lambda>(index, l, r). l \<ge> 0.03 \<or> r \<ge> 0.03) (concat_axis1 left right))) 1))
       0.05) \<and>
   get_detected_points example_A example_B 0.03 = [(1, 0.5, 0.5), (2, 0.9, 0.9), (3, 0.9, 0.9)] \<and>
   map (\<lambda>(index, l, r). l + r) (get_detected_points example_A example_B 0.03) = [1, 1.8, 1.8] \<and>
   check_additive_background example_A example_B double_cutoff single_cutoff = True"
proof -
  have "check_additive_background left right double_cutoff single_cutoff =
     (\<not> pf_le (pf_half
         (if filter (\<lambda>(index, l, r). l \<ge> 0.03 \<or> r \<ge> 0.03) (concat_axis1 left right) = []
          then Num 0
          else ttest_1samp (map (\<lambda>(index, l, r). l + r)
                 (filter (\<lambda>(index, l, r). l \<ge> 0.03 \<or> r \<ge> 0.03) (concat_axis1 left right))) 1))
       0.05)"
    unfolding check_additive_background_def Let_def get_detected_points_filter [OF assms]
    by simp
  moreover have "map (\<lambda>(index, l, r). l + r) (get_detected_points example_A example_B 0.03) = [1, 1.8, 1.8]"
    unfolding example_detected by (rule example_sums)
  ultimately show ?thesis using example_detected example_additive by blast
qed

text \<open>An instance of C4: the example trajectories.\<close>

theorem additive_check_ttest_witness:
  "distinct (map fst [(0 :: int, 0 :: real), (1, 0.5), (2, 0.9), (3, 0.9)]) \<and>
   check_additive_background [(0, 0), (1, 0.5), (2, 0.9), (3, 0.9)]
     [(0, 0), (1, 0.5), (2, 0.9), (3, 0.9)] 1.03 1.15 =
     (\<not> pf_le (pf_half (ttest_1samp [1, 1.8, 1.8] 1)) 0.05)"
proof -
  have d: "distinct (map fst [(0 :: int, 0 :: real), (1, 0.5), (2, 0.9), (3, 0.9)])" by simp
  from additive_check_ttest [OF d, of "[(0, 0), (1, 0.5), (2, 0.9), (3, 0.9)]" "1.03" "1.15"]
  show ?thesis by (simp add: concat_axis1_def)
qed

text \<open>C4 as stated fails: on the example the check returns True, not False.\<close>

theorem additive_example_counterexample:
  "check_additive_background [(0, 0), (1, 0.5), (2, 0.9), (3, 0.9)]
     [(0, 0), (1, 0.5), (2, 0.9), (3, 0.9)] 1.03 1.15 = True"
  using example_additive [of "1.03" "1.15"] by (simp add: example_A_def example_B_def)

text \<open>
  C5 (as amended). With no detected timepoint the checks do not raise (the model has no
  error result): they substitute the p-value 0, which both tests read as significant, so
  the additive check returns False and the subtractive check returns False.
\<close>

theorem empty_overlap_checks:
  assumes "get_detected_points left right 0.03 = []"
  shows "check_additive_background left right double_cutoff single_cutoff = False \<and>
         check_subtractive_background left right double_cutoff' single_cutoff' = False"
  using assms by (simp add: check_additive_background_def check_subtractive_background_def)

text \<open>An instance of C5: two series that stay below 0.03.\<close>

theorem empty_overlap_checks_witness:
  "get_detected_points [(0, 0), (1, 0.01)] [(0, 0), (1, 0.02)] 0.03 = [] \<and>
   check_additive_background [(0, 0), (1, 0.01)] [(0, 0), (1, 0.02)] 1.03 1.15 = False \<and>
   check_subtractive_background [(0, 0), (1, 0.01)] [(0, 0), (1, 0.02)] (-0.03) (-0.15) = False"
proof -
  have e: "get_detected_points [(0, 0), (1, 0.01)] [(0, 0), (1, 0.02)] 0.03 = []"
    by code_simp
  from empty_overlap_checks [OF e] e show ?thesis by blast
qed

text \<open>C5 as stated fails: on two series that are never detected both checks return False.\<close>

theorem empty_overlap_counterexample:
  "check_additive_background [(0, 0), (1, 0)] [(0, 0), (1, 0)] 1.03 1.15 = False \<and>
   check_subtractive_background [(0, 0), (1, 0)] [(0, 0), (1, 0)] (-0.03) (-0.15) = False"
proof -
  have "get_detected_points [(0, 0), (1, 0)] [(0, 0), (1, 0)] 0.03 = []"
    by code_simp
  then show ?thesis
    by (simp add: check_additive_background_def check_subtractive_background_def)
qed

text \<open>
  C7. For two series over the same timepoints, swapping them changes the result of neither
  the additive nor the subtractive check, whatever the cutoff arguments.
\<close>

theorem checks_symmetric:
  assumes "map fst left = map fst right"
  shows "check_additive_background left right double_cutoff single_cutoff =
           check_additive_background right left double_cutoff single_cutoff \<and>
         check_subtractive_background left right double_cutoff single_cutoff =
           check_subtractive_background right left double_cutoff single_cutoff"
  using additive_symmetric [OF assms] subtractive_symmetric [OF assms] by blast

text \<open>An instance of C7.\<close>

theorem checks_symmetric_witness:
  "map fst [(0 :: int, 0 :: real), (1, 0.5)] = map fst [(0 :: int, 0.2 :: real), (1, 0.1)] \<and>
   check_additive_background [(0, 0), (1, 0.5)] [(0, 0.2), (1, 0.1)] 1.03 1.15 =
     check_additive_background [(0, 0.2), (1, 0.1)] [(0, 0), (1, 0.5)] 1.03 1.15 \<and>
   check_subtractive_background [(0, 0), (1, 0.5)] [(0, 0.2), (1, 0.1)] 1.03 1.15 =
     check_subtractive_background [(0, 0.2), (1, 0.1)] [(0, 0), (1, 0.5)] 1.03 1.15"
proof -
  have i: "map fst [(0 :: int, 0 :: real), (1, 0.5)] = map fst [(0 :: int, 0.2 :: real), (1, 0.1)]"
    by simp
  from checks_symmetric [OF i] i show ?thesis by blast
qed

section \<open>Properties of the genotype sorter\<close>


































text \<open>
  C9. The code at the failing input. At tier 0.85 genotype A is first detected at timepoint
  1 and first significant at 1, genotype B at 2 and 2: ascending order of that tuple is A,
  B, and this is the order of \<open>sorted_frequencies\<close> (line 92). The function returns B, A:
  the groups of line 99 are visited in the order of their keys, which starts with the first
  timepoint above the tier threshold, 3 for A and 2 for B.
\<close>

theorem tier_order_groupby:
  "sort_genotype_frequencies [0, 1, 2, 3]
     [(''genotype-A'', [0, 0.5, 0.5, 1.0]), (''genotype-B'', [0, 0, 1.0, 1.0])]
     0.85 0.03 0.15 0.85 = Inr [''genotype-B'', ''genotype-A''] \<and>
   map fst (sorted_frequencies [0, 1, 2, 3]
     [(''genotype-A'', [0, 0.5, 0.5, 1.0]), (''genotype-B'', [0, 0, 1.0, 1.0])]
     0.85 0.03 0.15 0.85) = [''genotype-A'', ''genotype-B''] \<and>
   (idxmax_above [0, 1, 2, 3] [0, 0.5, 0.5, 1.0] 0.03,
    idxmax_above [0, 1, 2, 3] [0, 0.5, 0.5, 1.0] 0.15) = (1, 1) \<and>
   (idxmax_above [0, 1, 2, 3] [0, 0, 1.0, 1.0] 0.03,
    idxmax_above [0, 1, 2, 3] [0, 0, 1.0, 1.0] 0.15) = (2, 2) \<and>
   idxmax_above [0, 1, 2, 3] [0, 0.5, 0.5, 1.0] 0.85 = 3 \<and>
   idxmax_above [0, 1, 2, 3] [0, 0, 1.0, 1.0] 0.85 = 2"
  by code_simp

section \<open>Properties of genotype generation\<close>

text \<open>
  C10 (as amended). For an options value whose method is neither \<open>matlab\<close> nor
  \<open>hierarchy\<close>, \<open>generate_genotypes\<close> raises \<open>ValueError\<close> with the method named, and no
  genotype table, member map or linkage matrix is returned. The module-level pairwise
  cache has been updated by \<open>update_values\<close> by then, and stays so.
\<close>

theorem invalid_method_raises:
  assumes "clustering_method options \<noteq> ''matlab''" and "clustering_method options \<noteq> ''hierarchy''"
  shows "generate_genotypes update matlab_method hierarchical_method
           calculate_mean_genotype timepoints options pairwise_calculations =
         (Inl (ValueError (''Invalid clustering method: '' @ clustering_method options)),
          update timepoints (genotype_detection_breakpoint options)
            (genotype_fixed_breakpoint options) pairwise_calculations)"
  using assms by (simp add: generate_genotypes_def Let_def)

lemma example_update:
  "update_values example_trajectories 0.03 0.97 [] = [(''trajectory-1'', ''trajectory-2'')]"
  by (simp add: update_values_def example_trajectories_def)

text \<open>An instance of C10: the method \<open>kmeans\<close>, on a table of two trajectories.\<close>

theorem invalid_method_cache_witness:
  "generate_genotypes update_values (\<lambda>t c s d g. ()) (\<lambda>c s. ((), ())) (\<lambda>g t. [])
     example_trajectories example_options [] =
   (Inl (ValueError ''Invalid clustering method: kmeans''),
    [(''trajectory-1'', ''trajectory-2'')])"
proof -
  have a: "clustering_method example_options \<noteq> ''matlab''"
    and b: "clustering_method example_options \<noteq> ''hierarchy''"
    by (simp_all add: example_options_def)
  have u: "update_values example_trajectories (genotype_detection_breakpoint example_options)
      (genotype_fixed_breakpoint example_options) [] = [(''trajectory-1'', ''trajectory-2'')]"
    using example_update by (simp add: example_options_def)
  from invalid_method_raises [OF a b, of update_values _ _ _ example_trajectories "[]"]
  show ?thesis unfolding u by (simp add: example_options_def)
qed

text \<open>
  C10 as stated fails: after the rejected call the cache, empty before, holds the pair of
  the two trajectories.
\<close>

theorem invalid_method_cache_counterexample:
  "snd (generate_genotypes update_values (\<lambda>t c s d g. ()) (\<lambda>c s. ((), ())) (\<lambda>g t. [])
          ([0, 1], [(''trajectory-1'', [0, 0.5]), (''trajectory-2'', [0, 0.4])])
          \<lparr>genotype_detection_breakpoint = 0.03, genotype_fixed_breakpoint = 0.97,
           similarity_breakpoint = 0.05, difference_breakpoint = 0.1,
           clustering_method = ''kmeans'', starting_genotypes = []\<rparr> []) \<noteq> []"
  by (simp add: generate_genotypes_def update_values_def)

end
